theory Spec2Isabelle
  imports Complex_Main "HOL-Library.AList"
begin

section \<open>The Zakat ledger of blockchain.py\<close>

text \<open>
  A shallow embedding of the classes \<open>Transaction\<close>, \<open>Block\<close> and \<open>ZakatBlockchain\<close>.

  Conventions of the embedding.
  \<^item> Python's \<open>float\<close> amounts are idealised as exact rationals (\<open>rat\<close>): rounding is not
    modelled, every arithmetic step is the exact one.
  \<^item> A Python \<open>dict\<close> keeps insertion order; it is an association list with distinct keys,
    read with \<open>map_of\<close> and written with \<open>AList.update\<close> (replace in place, or append).
  \<^item> Every \<open>datetime.now()\<close> the code reads is an argument of the operation that reads it.
  \<^item> \<open>hashlib.sha256(s.encode()).hexdigest()\<close> and Python's \<open>str\<close> of a transaction
    dictionary are library code: they are the two fields of a parameter \<open>lib\<close>, and every
    theorem holds for whatever functions they are.
  \<^item> A method that mutates \<open>self\<close> returns the new ledger next to its result.
\<close>

subsection \<open>Library functions used by the code\<close>

record Transaction =
  sender :: string
  receiver :: string
  amount :: rat
  zakat_amount :: rat
  transaction_type :: string
  tx_timestamp :: string

record pylib =
  sha256_hexdigest :: "string \<Rightarrow> string"
  str_dict :: "Transaction \<Rightarrow> string"

text \<open>Python's \<open>str\<close> of a non-negative \<open>int\<close>: its decimal digits.\<close>

fun str_nat :: "nat \<Rightarrow> string" where
  "str_nat n =
     (if n < 10 then [char_of (48 + n)]
      else str_nat (n div 10) @ [char_of (48 + n mod 10)])"

declare str_nat.simps [simp del]

subsection \<open>class Transaction\<close>

text \<open>
  \<open>Transaction.__init__\<close>; the field \<open>timestamp\<close> is \<open>tx_timestamp\<close> here, \<open>Block\<close> has a
  field of the same name. The caller never passes a timestamp, so it is the clock's.
\<close>

definition Transaction_init ::
  "string \<Rightarrow> string \<Rightarrow> rat \<Rightarrow> rat \<Rightarrow> string \<Rightarrow> string \<Rightarrow> Transaction" where
  "Transaction_init s r a z ty now =
     \<lparr>sender = s, receiver = r, amount = a, zakat_amount = z,
      transaction_type = ty, tx_timestamp = now\<rparr>"

subsection \<open>class Block\<close>

record Block =
  index :: nat
  transactions :: "Transaction list"
  previous_hash :: string
  roll_number :: string
  timestamp :: string
  nonce :: nat
  hash :: string

definition calculate_hash :: "pylib \<Rightarrow> Block \<Rightarrow> string" where
  "calculate_hash lib b =
     (let transactions_str = concat (map (str_dict lib) (transactions b));
          block_string =
            roll_number b @ '':'' @ str_nat (index b) @ '':'' @ transactions_str @ '':'' @
            previous_hash b @ '':'' @ timestamp b @ '':'' @ str_nat (nonce b)
      in sha256_hexdigest lib block_string)"

text \<open>\<open>Block.__init__\<close>: nonce 0, and the hash of the fields as they are then.\<close>

definition Block_init ::
  "pylib \<Rightarrow> nat \<Rightarrow> Transaction list \<Rightarrow> string \<Rightarrow> string \<Rightarrow> string \<Rightarrow> Block" where
  "Block_init lib i txs prev rn now =
     (let b = \<lparr>index = i, transactions = txs, previous_hash = prev, roll_number = rn,
               timestamp = now, nonce = 0, hash = []\<rparr>
      in b\<lparr>hash := calculate_hash lib b\<rparr>)"

text \<open>
  \<open>Block.mine_block\<close>: the proof-of-work loop. Nothing bounds it, so the model is a
  partial function: \<open>None\<close> is the loop that never ends.
\<close>

partial_function (option) mine_block :: "pylib \<Rightarrow> nat \<Rightarrow> Block \<Rightarrow> Block option" where
  "mine_block lib difficulty b =
     (if take difficulty (hash b) \<noteq> replicate difficulty (CHR ''0'')
      then mine_block lib difficulty
             (let b' = b\<lparr>nonce := nonce b + 1\<rparr> in b'\<lparr>hash := calculate_hash lib b'\<rparr>)
      else Some b)"

subsection \<open>class ZakatBlockchain\<close>

text \<open>
  One entry of \<open>self.nodes\<close>. Its keys \<open>roll_number\<close> and \<open>balance\<close> are \<open>node_roll_number\<close>
  and \<open>node_balance\<close> here.
\<close>

record NodeInfo =
  node_roll_number :: string
  node_balance :: rat
  joined_at :: string
  transactions_count :: nat
  total_zakat_paid :: rat
  total_zakat_received :: rat
  is_active :: bool

record Ledger =
  creator_roll_number :: string
  chain :: "Block list"
  pending_transactions :: "Transaction list"
  balances :: "(string \<times> rat) list"
  nodes :: "(string \<times> NodeInfo) list"
  zakat_rate :: rat
  mining_reward :: rat

datatype error = IndexError

definition get_balance :: "Ledger \<Rightarrow> string \<Rightarrow> rat" where
  "get_balance l address = (case map_of (balances l) address of None \<Rightarrow> 0 | Some v \<Rightarrow> v)"

definition add_node :: "Ledger \<Rightarrow> string \<Rightarrow> rat \<Rightarrow> string \<Rightarrow> bool \<times> Ledger" where
  "add_node l rn initial_balance now =
     (if map_of (nodes l) rn \<noteq> None then (False, l)
      else
        let l1 = l\<lparr>nodes := AList.update rn
                   \<lparr>node_roll_number = rn, node_balance = initial_balance, joined_at = now,
                    transactions_count = 0, total_zakat_paid = 0, total_zakat_received = 0,
                    is_active = True\<rparr> (nodes l)\<rparr>;
            l2 = (if map_of (balances l1) rn = None
                  then l1\<lparr>balances := AList.update rn initial_balance (balances l1)\<rparr>
                  else l1)
        in (True, l2))"

definition update_node_stats :: "Ledger \<Rightarrow> string \<Rightarrow> rat \<Rightarrow> rat \<Rightarrow> Ledger" where
  "update_node_stats l rn zakat_paid zakat_received =
     (case map_of (nodes l) rn of
        None \<Rightarrow> l
      | Some n \<Rightarrow>
          l\<lparr>nodes := AList.update rn
              (n\<lparr>transactions_count := transactions_count n + 1,
                 total_zakat_paid := total_zakat_paid n + zakat_paid,
                 total_zakat_received := total_zakat_received n + zakat_received,
                 node_balance := get_balance l rn\<rparr>) (nodes l)\<rparr>)"

text \<open>\<open>create_genesis_block\<close>: the amount of the genesis transaction is the literal 200.0.\<close>

definition create_genesis_block :: "pylib \<Rightarrow> Ledger \<Rightarrow> string \<Rightarrow> string \<Rightarrow> Ledger" where
  "create_genesis_block lib l now_tx now_block =
     (let genesis_transaction =
            Transaction_init ''Genesis'' (creator_roll_number l) 200 0 ''genesis'' now_tx;
          genesis_block =
            Block_init lib 0 [genesis_transaction] ''0'' (creator_roll_number l) now_block
      in l\<lparr>chain := chain l @ [genesis_block]\<rparr>)"

text \<open>
  \<open>ZakatBlockchain.__init__\<close>. The three clock readings are those of \<open>add_node\<close>, of the
  genesis transaction and of the genesis block.
\<close>

definition ZakatBlockchain_init ::
  "pylib \<Rightarrow> string \<Rightarrow> rat \<Rightarrow> string \<Rightarrow> string \<Rightarrow> string \<Rightarrow> Ledger" where
  "ZakatBlockchain_init lib creator initial_balance now_node now_tx now_block =
     (let l0 = \<lparr>creator_roll_number = creator, chain = [], pending_transactions = [],
                balances = [(creator, initial_balance)], nodes = [],
                zakat_rate = 25 / 1000, mining_reward = 10\<rparr>;
          l1 = snd (add_node l0 creator initial_balance now_node)
      in create_genesis_block lib l1 now_tx now_block)"

definition calculate_zakat :: "Ledger \<Rightarrow> rat \<Rightarrow> rat" where
  "calculate_zakat l balance = balance * zakat_rate l"

definition validate_transaction :: "Ledger \<Rightarrow> Transaction \<Rightarrow> bool" where
  "validate_transaction l transaction =
     (let sender_balance = get_balance l (sender transaction);
          total_amount = amount transaction + zakat_amount transaction
      in if sender_balance < total_amount then False else True)"

definition add_transaction :: "Ledger \<Rightarrow> Transaction \<Rightarrow> bool \<times> Ledger" where
  "add_transaction l transaction =
     (if \<not> validate_transaction l transaction then (False, l)
      else (True, l\<lparr>pending_transactions := pending_transactions l @ [transaction]\<rparr>))"

text \<open>
  \<open>update_balances\<close>: the body of the loop for one transaction, then the loop. A key missing
  from \<open>self.balances\<close> is inserted with 0.0 before it is read.
\<close>

definition update_balances_tx :: "Ledger \<Rightarrow> Transaction \<Rightarrow> Ledger" where
  "update_balances_tx l tx =
     (let l1 =
            (if sender tx \<noteq> ''System'' \<and> sender tx \<noteq> ''Genesis'' then
               let b0 = (if map_of (balances l) (sender tx) = None
                         then AList.update (sender tx) 0 (balances l) else balances l);
                   total_deduction = amount tx + zakat_amount tx;
                   b1 = AList.update (sender tx)
                          (the (map_of b0 (sender tx)) - total_deduction) b0
               in update_node_stats (l\<lparr>balances := b1\<rparr>) (sender tx) (zakat_amount tx) 0
             else l);
          b2 = (if map_of (balances l1) (receiver tx) = None
                then AList.update (receiver tx) 0 (balances l1) else balances l1);
          b3 = AList.update (receiver tx) (the (map_of b2 (receiver tx)) + amount tx) b2;
          l3 = l1\<lparr>balances := b3\<rparr>
      in if transaction_type tx = ''zakat'' \<and> receiver tx \<noteq> ''Zakat_Fund''
         then update_node_stats l3 (receiver tx) 0 (zakat_amount tx)
         else l3)"

definition update_balances :: "Ledger \<Rightarrow> Block \<Rightarrow> Ledger" where
  "update_balances l block = foldl update_balances_tx l (transactions block)"

text \<open>
  \<open>mine_pending_transactions\<close>. \<open>get_latest_block\<close> is \<open>self.chain[-1]\<close>, an \<open>IndexError\<close> on
  an empty chain. \<open>mine_block()\<close> is called with its default difficulty 2. The result is
  \<open>None\<close> when the proof-of-work loop never ends.
\<close>

definition mine_pending_transactions ::
  "pylib \<Rightarrow> Ledger \<Rightarrow> string \<Rightarrow> string \<Rightarrow> string \<Rightarrow> (error + Ledger) option" where
  "mine_pending_transactions lib l mining_address now_tx now_block =
     (let reward_transaction =
            Transaction_init ''System'' mining_address (mining_reward l) 0 ''mining_reward'' now_tx;
          l1 = l\<lparr>pending_transactions := pending_transactions l @ [reward_transaction]\<rparr>
      in if chain l1 = [] then Some (Inl IndexError)
         else
           case mine_block lib 2
                  (Block_init lib (length (chain l1)) (pending_transactions l1)
                     (hash (last (chain l1))) (creator_roll_number l1) now_block) of
             None \<Rightarrow> None
           | Some block \<Rightarrow>
               let l2 = l1\<lparr>chain := chain l1 @ [block]\<rparr>;
                   l3 = update_balances l2 block
               in Some (Inr (l3\<lparr>pending_transactions := []\<rparr>)))"

definition create_zakat_transaction ::
  "Ledger \<Rightarrow> string \<Rightarrow> string \<Rightarrow> string \<Rightarrow> bool \<times> Ledger" where
  "create_zakat_transaction l from_address to_address now =
     (let current_balance = get_balance l from_address;
          zakat = calculate_zakat l current_balance
      in if zakat > 0
         then add_transaction l (Transaction_init from_address to_address 0 zakat ''zakat'' now)
         else (False, l))"

definition create_transfer_transaction ::
  "Ledger \<Rightarrow> string \<Rightarrow> string \<Rightarrow> rat \<Rightarrow> string \<Rightarrow> bool \<times> Ledger" where
  "create_transfer_transaction l from_address to_address amt now =
     (let current_balance = get_balance l from_address;
          zakat = calculate_zakat l current_balance
      in add_transaction l (Transaction_init from_address to_address amt zakat ''transfer'' now))"

text \<open>\<open>validate_chain\<close>: the loop over \<open>range(1, len(self.chain))\<close>, from index \<open>i\<close> on.\<close>

function validate_chain_from :: "pylib \<Rightarrow> Block list \<Rightarrow> nat \<Rightarrow> bool" where
  "validate_chain_from lib c i =
     (if i < length c then
        (let current_block = c ! i; previous_block = c ! (i - 1)
         in if hash current_block \<noteq> calculate_hash lib current_block then False
            else if previous_hash current_block \<noteq> hash previous_block then False
            else validate_chain_from lib c (i + 1))
      else True)"
  by pat_completeness auto
termination
  by (relation "measure (\<lambda>(lib, c, i). length c - i)") auto

declare validate_chain_from.simps [simp del]

definition validate_chain :: "pylib \<Rightarrow> Ledger \<Rightarrow> bool" where
  "validate_chain lib l = validate_chain_from lib (chain l) 1"

subsection \<open>Derived notions\<close>

text \<open>\<open>sum(self.balances.values())\<close>.\<close>

definition sum_balances :: "Ledger \<Rightarrow> rat" where
  "sum_balances l = sum_list (map snd (balances l))"

text \<open>
  The ledgers a caller can build: the constructor, then any sequence of \<open>add_node\<close>,
  \<open>create_zakat_transaction\<close>, \<open>create_transfer_transaction\<close>, \<open>add_transaction\<close> (the
  path of a gift) and \<open>mine_pending_transactions\<close> calls that return.
\<close>

inductive reachable :: "pylib \<Rightarrow> Ledger \<Rightarrow> bool" for lib :: pylib where
  r_init: "reachable lib (ZakatBlockchain_init lib creator initial_balance t1 t2 t3)"
| r_add_node: "reachable lib l \<Longrightarrow> reachable lib (snd (add_node l rn initial_balance t))"
| r_zakat: "reachable lib l \<Longrightarrow> reachable lib (snd (create_zakat_transaction l a b t))"
| r_transfer:
    "reachable lib l \<Longrightarrow> reachable lib (snd (create_transfer_transaction l a b amt t))"
| r_add: "reachable lib l \<Longrightarrow> reachable lib (snd (add_transaction l tx))"
| r_mine:
    "reachable lib l \<Longrightarrow> mine_pending_transactions lib l m t1 t2 = Some (Inr l') \<Longrightarrow>
     reachable lib l'"

text \<open>
  A small stand-in for the two library functions, to run the model on concrete inputs: its
  digest starts with zeros exactly when the hashed string ends in the digit 1, so the
  proof-of-work loop stops at nonce 1.
\<close>

definition demo_lib :: pylib where
  "demo_lib =
     \<lparr>sha256_hexdigest =
        (\<lambda>s. if last s = CHR ''1'' then replicate 64 (CHR ''0'') else replicate 64 (CHR ''f'')),
      str_dict = (\<lambda>t. sender t @ ''>'' @ receiver t)\<rparr>"

section \<open>Properties\<close>

subsection \<open>Validation and enqueueing\<close>


lemma add_transaction_frame:
  "creator_roll_number (snd (add_transaction l tx)) = creator_roll_number l"
  "chain (snd (add_transaction l tx)) = chain l"
  "balances (snd (add_transaction l tx)) = balances l"
  "nodes (snd (add_transaction l tx)) = nodes l"
  "zakat_rate (snd (add_transaction l tx)) = zakat_rate l"
  "mining_reward (snd (add_transaction l tx)) = mining_reward l"
  by (simp_all add: add_transaction_def)

lemma create_zakat_transaction_frame:
  "creator_roll_number (snd (create_zakat_transaction l a b t)) = creator_roll_number l"
  "chain (snd (create_zakat_transaction l a b t)) = chain l"
  "balances (snd (create_zakat_transaction l a b t)) = balances l"
  "nodes (snd (create_zakat_transaction l a b t)) = nodes l"
  "zakat_rate (snd (create_zakat_transaction l a b t)) = zakat_rate l"
  "mining_reward (snd (create_zakat_transaction l a b t)) = mining_reward l"
  by (simp_all add: create_zakat_transaction_def Let_def add_transaction_frame)

lemma create_transfer_transaction_frame:
  "creator_roll_number (snd (create_transfer_transaction l a b amt t)) = creator_roll_number l"
  "chain (snd (create_transfer_transaction l a b amt t)) = chain l"
  "balances (snd (create_transfer_transaction l a b amt t)) = balances l"
  "nodes (snd (create_transfer_transaction l a b amt t)) = nodes l"
  "zakat_rate (snd (create_transfer_transaction l a b amt t)) = zakat_rate l"
  "mining_reward (snd (create_transfer_transaction l a b amt t)) = mining_reward l"
  by (simp_all add: create_transfer_transaction_def Let_def add_transaction_frame)

lemma add_node_frame:
  "creator_roll_number (snd (add_node l rn bal t)) = creator_roll_number l"
  "chain (snd (add_node l rn bal t)) = chain l"
  "pending_transactions (snd (add_node l rn bal t)) = pending_transactions l"
  "zakat_rate (snd (add_node l rn bal t)) = zakat_rate l"
  "mining_reward (snd (add_node l rn bal t)) = mining_reward l"
  by (simp_all add: add_node_def Let_def)

lemma update_node_stats_frame:
  "creator_roll_number (update_node_stats l rn zp zr) = creator_roll_number l"
  "chain (update_node_stats l rn zp zr) = chain l"
  "pending_transactions (update_node_stats l rn zp zr) = pending_transactions l"
  "balances (update_node_stats l rn zp zr) = balances l"
  "zakat_rate (update_node_stats l rn zp zr) = zakat_rate l"
  "mining_reward (update_node_stats l rn zp zr) = mining_reward l"
  by (simp_all add: update_node_stats_def split: option.split)

lemma update_balances_tx_frame:
  "creator_roll_number (update_balances_tx l tx) = creator_roll_number l"
  "chain (update_balances_tx l tx) = chain l"
  "pending_transactions (update_balances_tx l tx) = pending_transactions l"
  "zakat_rate (update_balances_tx l tx) = zakat_rate l"
  "mining_reward (update_balances_tx l tx) = mining_reward l"
  by (simp_all add: update_balances_tx_def Let_def update_node_stats_frame)

lemma foldl_update_balances_tx_frame:
  "creator_roll_number (foldl update_balances_tx l txs) = creator_roll_number l"
  "chain (foldl update_balances_tx l txs) = chain l"
  "pending_transactions (foldl update_balances_tx l txs) = pending_transactions l"
  "zakat_rate (foldl update_balances_tx l txs) = zakat_rate l"
  "mining_reward (foldl update_balances_tx l txs) = mining_reward l"
  by (induction txs arbitrary: l) (simp_all add: update_balances_tx_frame)

subsection \<open>The proof-of-work loop\<close>

lemma calculate_hash_hash_upd [simp]:
  "calculate_hash lib (b\<lparr>hash := h\<rparr>) = calculate_hash lib b"
  by (simp add: calculate_hash_def)

lemma calculate_hash_hash_nonce_upd [simp]:
  "calculate_hash lib (b\<lparr>hash := h, nonce := n\<rparr>) = calculate_hash lib (b\<lparr>nonce := n\<rparr>)"
  by (simp add: calculate_hash_def)

lemma mine_block_done:
  "take d (hash b) = replicate d (CHR ''0'') \<Longrightarrow> mine_block lib d b = Some b"
  by (subst mine_block.simps) simp

lemma mine_block_step:
  "take d (hash b) \<noteq> replicate d (CHR ''0'') \<Longrightarrow>
   mine_block lib d b =
   mine_block lib d
     (b\<lparr>nonce := nonce b + 1, hash := calculate_hash lib (b\<lparr>nonce := nonce b + 1\<rparr>)\<rparr>)"
  by (subst mine_block.simps) (simp add: Let_def)

text \<open>
  What the loop returns, when it returns, from a block whose stored hash is the hash of its
  fields: the same block but for nonce and hash, the hash again that of the fields, with
  \<open>d\<close> leading zeros.
\<close>

lemma mine_block_Some_aux:
  assumes m: "mine_block lib d b = Some b'"
  shows "hash b = calculate_hash lib b \<longrightarrow>
     take d (hash b') = replicate d (CHR ''0'') \<and> hash b' = calculate_hash lib b' \<and>
     b' = b\<lparr>nonce := nonce b', hash := hash b'\<rparr> \<and> nonce b \<le> nonce b'"
proof (rule mine_block.raw_induct [rotated, OF m])
  fix f lib d b b'
  assume IH: "\<And>lib d b y. f lib d b = Some y \<Longrightarrow>
        hash b = calculate_hash lib b \<longrightarrow>
        take d (hash y) = replicate d (CHR ''0'') \<and> hash y = calculate_hash lib y \<and>
        y = b\<lparr>nonce := nonce y, hash := hash y\<rparr> \<and> nonce b \<le> nonce y"
    and body: "(if take d (hash b) \<noteq> replicate d (CHR ''0'')
                then f lib d (let b' = b\<lparr>nonce := nonce b + 1\<rparr>
                              in b'\<lparr>hash := calculate_hash lib b'\<rparr>)
                else Some b) = Some b'"
  show "hash b = calculate_hash lib b \<longrightarrow>
     take d (hash b') = replicate d (CHR ''0'') \<and> hash b' = calculate_hash lib b' \<and>
     b' = b\<lparr>nonce := nonce b', hash := hash b'\<rparr> \<and> nonce b \<le> nonce b'"
  proof (cases "take d (hash b) = replicate d (CHR ''0'')")
    case True
    with body show ?thesis by auto
  next
    case False
    let ?b1 = "b\<lparr>nonce := nonce b + 1,
                 hash := calculate_hash lib (b\<lparr>nonce := nonce b + 1\<rparr>)\<rparr>"
    from False body have "f lib d ?b1 = Some b'" by (simp add: Let_def)
    from IH [OF this] show ?thesis by auto
  qed
qed

text \<open>The loop returns as soon as some nonce from the current one on gives the zeros.\<close>

lemma mine_block_returns_aux:
  "hash b = calculate_hash lib b \<Longrightarrow> n = k + nonce b \<Longrightarrow>
   take d (calculate_hash lib (b\<lparr>nonce := n\<rparr>)) = replicate d (CHR ''0'') \<Longrightarrow>
   mine_block lib d b \<noteq> None"
proof (induction k arbitrary: b)
  case 0
  then have "take d (hash b) = replicate d (CHR ''0'')" by simp
  then show ?case by (simp add: mine_block_done)
next
  case (Suc k)
  show ?case
  proof (cases "take d (hash b) = replicate d (CHR ''0'')")
    case True
    then show ?thesis by (simp add: mine_block_done)
  next
    case False
    let ?b1 = "b\<lparr>nonce := nonce b + 1,
                 hash := calculate_hash lib (b\<lparr>nonce := nonce b + 1\<rparr>)\<rparr>"
    have "mine_block lib d ?b1 \<noteq> None"
      using Suc.prems by (intro Suc.IH) simp_all
    with False show ?thesis by (simp add: mine_block_step)
  qed
qed

lemma Block_init_fields:
  "index (Block_init lib i txs p rn t) = i"
  "transactions (Block_init lib i txs p rn t) = txs"
  "previous_hash (Block_init lib i txs p rn t) = p"
  "roll_number (Block_init lib i txs p rn t) = rn"
  "timestamp (Block_init lib i txs p rn t) = t"
  "nonce (Block_init lib i txs p rn t) = 0"
  "hash (Block_init lib i txs p rn t) = calculate_hash lib (Block_init lib i txs p rn t)"
  by (simp_all add: Block_init_def Let_def calculate_hash_def)

lemma mine_block_Block_init:
  assumes "mine_block lib d (Block_init lib i txs p rn t) = Some b"
  shows "index b = i" "transactions b = txs" "previous_hash b = p" "roll_number b = rn"
    "timestamp b = t" "hash b = calculate_hash lib b"
    "take d (hash b) = replicate d (CHR ''0'')"
proof -
  let ?b0 = "Block_init lib i txs p rn t"
  from mine_block_Some_aux [OF assms] Block_init_fields(7) [of lib i txs p rn t]
  have *: "take d (hash b) = replicate d (CHR ''0'')" "hash b = calculate_hash lib b"
    "b = ?b0\<lparr>nonce := nonce b, hash := hash b\<rparr>"
    by blast+
  show "take d (hash b) = replicate d (CHR ''0'')" "hash b = calculate_hash lib b"
    by (rule *)+
  have "index b = index ?b0" "transactions b = transactions ?b0"
    "previous_hash b = previous_hash ?b0" "roll_number b = roll_number ?b0"
    "timestamp b = timestamp ?b0"
    by (subst *(3), simp)+
  then show "index b = i" "transactions b = txs" "previous_hash b = p" "roll_number b = rn"
    "timestamp b = t"
    by (simp_all add: Block_init_fields)
qed

lemma mine_block_Block_init_returns:
  assumes "take d (calculate_hash lib ((Block_init lib i txs p rn t)\<lparr>nonce := n\<rparr>)) =
           replicate d (CHR ''0'')"
  shows "\<exists>b. mine_block lib d (Block_init lib i txs p rn t) = Some b"
proof -
  have "mine_block lib d (Block_init lib i txs p rn t) \<noteq> None"
    by (rule mine_block_returns_aux [where n = n and k = n])
       (simp_all add: Block_init_fields assms)
  then show ?thesis by auto
qed

subsection \<open>Sealing\<close>

lemma update_balances_frame:
  "creator_roll_number (update_balances l b) = creator_roll_number l"
  "chain (update_balances l b) = chain l"
  "pending_transactions (update_balances l b) = pending_transactions l"
  "zakat_rate (update_balances l b) = zakat_rate l"
  "mining_reward (update_balances l b) = mining_reward l"
  by (simp_all add: update_balances_def foldl_update_balances_tx_frame)

text \<open>The anatomy of a seal that returns a ledger.\<close>

lemma mine_pending_transactions_Inr:
  assumes "mine_pending_transactions lib l m t1 t2 = Some (Inr l')"
  obtains block where
    "chain l \<noteq> []"
    "mine_block lib 2
       (Block_init lib (length (chain l))
          (pending_transactions l @
             [Transaction_init ''System'' m (mining_reward l) 0 ''mining_reward'' t1])
          (hash (last (chain l))) (creator_roll_number l) t2) = Some block"
    "l' = (update_balances
             (l\<lparr>pending_transactions := pending_transactions l @
                   [Transaction_init ''System'' m (mining_reward l) 0 ''mining_reward'' t1],
                chain := chain l @ [block]\<rparr>) block)\<lparr>pending_transactions := []\<rparr>"
  using assms
  by (auto simp: mine_pending_transactions_def Let_def split: if_splits option.splits)

text \<open>
  A seal on a non-empty chain returns a ledger as soon as some nonce gives the new block
  a hash with two leading zeros.
\<close>

lemma mine_pending_transactions_returns:
  assumes "chain l \<noteq> []"
    and "take 2 (calculate_hash lib
           ((Block_init lib (length (chain l))
              (pending_transactions l @
                 [Transaction_init ''System'' m (mining_reward l) 0 ''mining_reward'' t1])
              (hash (last (chain l))) (creator_roll_number l) t2)\<lparr>nonce := n\<rparr>)) = ''00''"
  shows "\<exists>l'. mine_pending_transactions lib l m t1 t2 = Some (Inr l')"
proof -
  have "replicate 2 (CHR ''0'') = ''00''" by (simp add: numeral_2_eq_2)
  with assms(2) mine_block_Block_init_returns [where d = 2 and n = n]
  obtain b where "mine_block lib 2
       (Block_init lib (length (chain l))
          (pending_transactions l @
             [Transaction_init ''System'' m (mining_reward l) 0 ''mining_reward'' t1])
          (hash (last (chain l))) (creator_roll_number l) t2) = Some b"
    by metis
  with assms(1) show ?thesis
    by (simp add: mine_pending_transactions_def Let_def)
qed

lemma mine_pending_transactions_frame:
  assumes "mine_pending_transactions lib l m t1 t2 = Some (Inr l')"
  shows "creator_roll_number l' = creator_roll_number l"
    "zakat_rate l' = zakat_rate l" "mining_reward l' = mining_reward l"
    "pending_transactions l' = []" "length (chain l') = Suc (length (chain l))"
  using assms
  by (auto elim!: mine_pending_transactions_Inr simp: update_balances_frame)

subsection \<open>Invariants of the reachable ledgers\<close>

lemma ZakatBlockchain_init_fields:
  "creator_roll_number (ZakatBlockchain_init lib c bal t1 t2 t3) = c"
  "chain (ZakatBlockchain_init lib c bal t1 t2 t3) =
     [Block_init lib 0 [Transaction_init ''Genesis'' c 200 0 ''genesis'' t2] ''0'' c t3]"
  "pending_transactions (ZakatBlockchain_init lib c bal t1 t2 t3) = []"
  "balances (ZakatBlockchain_init lib c bal t1 t2 t3) = [(c, bal)]"
  "zakat_rate (ZakatBlockchain_init lib c bal t1 t2 t3) = 25 / 1000"
  "mining_reward (ZakatBlockchain_init lib c bal t1 t2 t3) = 10"
  by (simp_all add: ZakatBlockchain_init_def create_genesis_block_def add_node_def Let_def)

lemma reachable_constants:
  assumes "reachable lib l"
  shows "zakat_rate l = 25 / 1000" and "mining_reward l = 10" and "chain l \<noteq> []"
  using assms
proof (induction rule: reachable.induct)
  case (r_init creator initial_balance t1 t2 t3)
  {
    case 1 show ?case by (simp add: ZakatBlockchain_init_fields)
  next
    case 2 show ?case by (simp add: ZakatBlockchain_init_fields)
  next
    case 3 show ?case by (simp add: ZakatBlockchain_init_fields)
  }
next
  case (r_add_node l rn initial_balance t)
  {
    case 1 with r_add_node show ?case by (simp add: add_node_frame)
  next
    case 2 with r_add_node show ?case by (simp add: add_node_frame)
  next
    case 3 with r_add_node show ?case by (simp add: add_node_frame)
  }
next
  case (r_zakat l a b t)
  {
    case 1 with r_zakat show ?case by (simp add: create_zakat_transaction_frame)
  next
    case 2 with r_zakat show ?case by (simp add: create_zakat_transaction_frame)
  next
    case 3 with r_zakat show ?case by (simp add: create_zakat_transaction_frame)
  }
next
  case (r_transfer l a b amt t)
  {
    case 1 with r_transfer show ?case by (simp add: create_transfer_transaction_frame)
  next
    case 2 with r_transfer show ?case by (simp add: create_transfer_transaction_frame)
  next
    case 3 with r_transfer show ?case by (simp add: create_transfer_transaction_frame)
  }
next
  case (r_add l tx)
  {
    case 1 with r_add show ?case by (simp add: add_transaction_frame)
  next
    case 2 with r_add show ?case by (simp add: add_transaction_frame)
  next
    case 3 with r_add show ?case by (simp add: add_transaction_frame)
  }
next
  case (r_mine l m t1 t2 l')
  {
    case 1 with r_mine show ?case by (simp add: mine_pending_transactions_frame)
  next
    case 2 with r_mine show ?case by (simp add: mine_pending_transactions_frame)
  next
    case 3
    from mine_pending_transactions_frame(5) [OF r_mine(2)] show ?case by auto
  }
qed

subsection \<open>The stand-in library on small inputs\<close>

lemma str_nat_digit: "str_nat 0 = ''0''" "str_nat 1 = ''1''" "str_nat 2 = ''2''"
  by code_simp+


lemma str_nat_Suc_0: "str_nat (Suc 0) = ''1''"
  using str_nat_digit(2) by simp

lemma demo_lib_calculate_hash:
  "calculate_hash demo_lib b =
     (if last (str_nat (nonce b)) = CHR ''1'' then replicate 64 (CHR ''0'')
      else replicate 64 (CHR ''f''))"
proof -
  have "str_nat (nonce b) \<noteq> []" by (subst str_nat.simps) simp
  then show ?thesis by (simp add: calculate_hash_def demo_lib_def Let_def)
qed

lemma demo_lib_solution:
  "take 2 (calculate_hash demo_lib (b\<lparr>nonce := Suc 0\<rparr>)) = ''00''"
  by (simp add: demo_lib_calculate_hash str_nat_Suc_0 numeral_2_eq_2)

lemma demo_lib_seal_returns:
  "chain l \<noteq> [] \<Longrightarrow> \<exists>l'. mine_pending_transactions demo_lib l m t1 t2 = Some (Inr l')"
  by (rule mine_pending_transactions_returns [where n = "Suc 0"])
     (simp_all add: demo_lib_solution)

subsection \<open>Chain validation\<close>

text \<open>From index 1 on, the loop reads of the first block its stored hash only.\<close>

lemma validate_chain_from_genesis:
  assumes "hash g = hash g'"
  shows "1 \<le> i \<Longrightarrow>
         validate_chain_from lib (g # bs) i = validate_chain_from lib (g' # bs) i"
proof (induction "Suc (length bs) - i" arbitrary: i)
  case 0
  then have "\<not> i < length (g # bs)" "\<not> i < length (g' # bs)" by simp_all
  then show ?case by (simp add: validate_chain_from.simps)
next
  case (Suc k)
  from Suc.prems obtain j where i: "i = Suc j" by (cases i) auto
  have prev: "hash ((g # bs) ! j) = hash ((g' # bs) ! j)"
    using assms by (cases j) simp_all
  have rest: "validate_chain_from lib (g # bs) (Suc i) = validate_chain_from lib (g' # bs) (Suc i)"
    using Suc.hyps by (intro Suc.hyps(1)) simp_all
  show ?case
    using i prev rest
    by (subst validate_chain_from.simps [of lib "g # bs"],
        subst validate_chain_from.simps [of lib "g' # bs"])
       (simp add: Let_def)
qed

text \<open>A chain of two blocks.\<close>

lemma validate_chain_from_pair:
  "validate_chain_from lib [g, b] 1 \<longleftrightarrow>
     hash b = calculate_hash lib b \<and> previous_hash b = hash g"
  by (subst validate_chain_from.simps, subst validate_chain_from.simps) (auto simp: Let_def)

text \<open>The balances after one transaction depend on the balances before only.\<close>

lemma balances_update_balances_tx:
  "balances (update_balances_tx l tx) =
     (let b1 = (if sender tx \<noteq> ''System'' \<and> sender tx \<noteq> ''Genesis'' then
                  let b0 = (if map_of (balances l) (sender tx) = None
                            then AList.update (sender tx) 0 (balances l) else balances l)
                  in AList.update (sender tx)
                       (the (map_of b0 (sender tx)) - (amount tx + zakat_amount tx)) b0
                else balances l);
          b2 = (if map_of b1 (receiver tx) = None
                then AList.update (receiver tx) 0 b1 else b1)
      in AList.update (receiver tx) (the (map_of b2 (receiver tx)) + amount tx) b2)"
  by (simp add: update_balances_tx_def Let_def update_node_stats_frame)

lemma get_balance_cong:
  "balances l = balances l' \<Longrightarrow> get_balance l a = get_balance l' a"
  by (simp add: get_balance_def)

text \<open>
  The test scenario: a fresh ledger of \<open>C1\<close> with 200, a transfer of 50 to \<open>C2\<close>, a seal
  by \<open>C1\<close>.
\<close>

lemma scenario_transfer:
  "create_transfer_transaction (ZakatBlockchain_init lib ''C1'' 200 t0 t1 t2) ''C1'' ''C2'' 50 t3 =
     (True, (ZakatBlockchain_init lib ''C1'' 200 t0 t1 t2)
              \<lparr>pending_transactions := [Transaction_init ''C1'' ''C2'' 50 5 ''transfer'' t3]\<rparr>)"
  by (simp add: create_transfer_transaction_def calculate_zakat_def add_transaction_def
      validate_transaction_def get_balance_def ZakatBlockchain_init_fields
      Transaction_init_def Let_def)

lemma scenario_balances:
  assumes "balances l = [(''C1'', 200)]"
  shows "balances (foldl update_balances_tx l
           [Transaction_init ''C1'' ''C2'' 50 5 ''transfer'' t3,
            Transaction_init ''System'' ''C1'' 10 0 ''mining_reward'' t4]) =
         [(''C1'', 155), (''C2'', 50)]"
  by (simp add: balances_update_balances_tx assms Transaction_init_def Let_def)

lemma scenario_sealed:
  assumes "mine_pending_transactions lib
             (snd (create_transfer_transaction
                     (ZakatBlockchain_init lib ''C1'' 200 t0 t1 t2) ''C1'' ''C2'' 50 t3))
             ''C1'' t4 t5 = Some (Inr l')"
  shows "balances l' = [(''C1'', 155), (''C2'', 50)]"
    and "\<exists>b. chain l' = [Block_init lib 0 [Transaction_init ''Genesis'' ''C1'' 200 0 ''genesis'' t1]
                          ''0'' ''C1'' t2, b] \<and>
             hash b = calculate_hash lib b \<and> take 2 (hash b) = ''00'' \<and>
             previous_hash b =
               hash (Block_init lib 0 [Transaction_init ''Genesis'' ''C1'' 200 0 ''genesis'' t1]
                          ''0'' ''C1'' t2)"
proof -
  let ?l0 = "ZakatBlockchain_init lib ''C1'' 200 t0 t1 t2"
  let ?tx = "Transaction_init ''C1'' ''C2'' 50 5 ''transfer'' t3"
  let ?rw = "Transaction_init ''System'' ''C1'' 10 0 ''mining_reward'' t4"
  let ?l1 = "?l0\<lparr>pending_transactions := [?tx]\<rparr>"
  let ?g = "Block_init lib 0 [Transaction_init ''Genesis'' ''C1'' 200 0 ''genesis'' t1]
              ''0'' ''C1'' t2"
  from assms have m: "mine_pending_transactions lib ?l1 ''C1'' t4 t5 = Some (Inr l')"
    by (simp add: scenario_transfer)
  from m obtain block where
    mb: "mine_block lib 2
       (Block_init lib (length (chain ?l1))
          (pending_transactions ?l1 @
             [Transaction_init ''System'' ''C1'' (mining_reward ?l1) 0 ''mining_reward'' t4])
          (hash (last (chain ?l1))) (creator_roll_number ?l1) t5) = Some block"
    and l': "l' = (update_balances
             (?l1\<lparr>pending_transactions := pending_transactions ?l1 @
                   [Transaction_init ''System'' ''C1'' (mining_reward ?l1) 0 ''mining_reward'' t4],
                chain := chain ?l1 @ [block]\<rparr>) block)\<lparr>pending_transactions := []\<rparr>"
    by (rule mine_pending_transactions_Inr)
  from mine_block_Block_init [OF mb]
  have txs: "transactions block = [?tx, ?rw]"
    and ph: "previous_hash block = hash ?g"
    and hb: "hash block = calculate_hash lib block"
    and z: "take 2 (hash block) = ''00''"
    by (simp_all add: ZakatBlockchain_init_fields numeral_2_eq_2)
  have "balances l' = balances (foldl update_balances_tx
           (?l1\<lparr>pending_transactions := pending_transactions ?l1 @
                   [Transaction_init ''System'' ''C1'' (mining_reward ?l1) 0 ''mining_reward'' t4],
                chain := chain ?l1 @ [block]\<rparr>) [?tx, ?rw])"
    unfolding l' update_balances_def txs by (simp del: foldl_Cons)
  also have "\<dots> = [(''C1'', 155), (''C2'', 50)]"
    by (rule scenario_balances) (simp add: ZakatBlockchain_init_fields)
  finally show "balances l' = [(''C1'', 155), (''C2'', 50)]" .
  have "chain l' = [?g, block]"
    unfolding l' by (simp add: update_balances_frame ZakatBlockchain_init_fields)
  with ph hb z show "\<exists>b. chain l' = [?g, b] \<and>
             hash b = calculate_hash lib b \<and> take 2 (hash b) = ''00'' \<and>
             previous_hash b = hash ?g"
    by blast
qed

lemma balances_foldl_update_balances_tx_cong:
  "balances l = balances k \<Longrightarrow>
   balances (foldl update_balances_tx l txs) = balances (foldl update_balances_tx k txs)"
proof (induction txs arbitrary: l k)
  case Nil
  then show ?case by simp
next
  case (Cons tx txs)
  have "balances (update_balances_tx l tx) = balances (update_balances_tx k tx)"
    unfolding balances_update_balances_tx Cons.prems ..
  then have "balances (foldl update_balances_tx (update_balances_tx l tx) txs) =
             balances (foldl update_balances_tx (update_balances_tx k tx) txs)"
    by (rule Cons.IH)
  then show ?case by simp
qed

text \<open>The block a returning seal appends, and the balances it leaves.\<close>

lemma mine_pending_transactions_block:
  assumes "mine_pending_transactions lib l m t1 t2 = Some (Inr l')"
  obtains b where
    "chain l \<noteq> []" "chain l' = chain l @ [b]" "index b = length (chain l)"
    "transactions b = pending_transactions l @
       [Transaction_init ''System'' m (mining_reward l) 0 ''mining_reward'' t1]"
    "previous_hash b = hash (last (chain l))" "roll_number b = creator_roll_number l"
    "timestamp b = t2" "hash b = calculate_hash lib b" "take 2 (hash b) = ''00''"
proof -
  from assms obtain block where
    ne: "chain l \<noteq> []" and
    mb: "mine_block lib 2
       (Block_init lib (length (chain l))
          (pending_transactions l @
             [Transaction_init ''System'' m (mining_reward l) 0 ''mining_reward'' t1])
          (hash (last (chain l))) (creator_roll_number l) t2) = Some block"
    and l': "l' = (update_balances
             (l\<lparr>pending_transactions := pending_transactions l @
                   [Transaction_init ''System'' m (mining_reward l) 0 ''mining_reward'' t1],
                chain := chain l @ [block]\<rparr>) block)\<lparr>pending_transactions := []\<rparr>"
    by (rule mine_pending_transactions_Inr)
  have c: "chain l' = chain l @ [block]"
    unfolding l' by (simp add: update_balances_frame)
  from mine_block_Block_init [OF mb] have "take 2 (hash block) = ''00''"
    by (simp add: numeral_2_eq_2)
  with ne c mine_block_Block_init(1-6) [OF mb] show thesis
    by (intro that [of block])
qed

lemma mine_pending_transactions_balances:
  assumes "mine_pending_transactions lib l m t1 t2 = Some (Inr l')"
  shows "balances l' = balances (foldl update_balances_tx l
           (pending_transactions l @
              [Transaction_init ''System'' m (mining_reward l) 0 ''mining_reward'' t1]))"
proof -
  from assms obtain block where
    mb: "mine_block lib 2
       (Block_init lib (length (chain l))
          (pending_transactions l @
             [Transaction_init ''System'' m (mining_reward l) 0 ''mining_reward'' t1])
          (hash (last (chain l))) (creator_roll_number l) t2) = Some block"
    and l': "l' = (update_balances
             (l\<lparr>pending_transactions := pending_transactions l @
                   [Transaction_init ''System'' m (mining_reward l) 0 ''mining_reward'' t1],
                chain := chain l @ [block]\<rparr>) block)\<lparr>pending_transactions := []\<rparr>"
    by (rule mine_pending_transactions_Inr)
  have "balances l' = balances (foldl update_balances_tx
             (l\<lparr>pending_transactions := pending_transactions l @
                   [Transaction_init ''System'' m (mining_reward l) 0 ''mining_reward'' t1],
                chain := chain l @ [block]\<rparr>) (transactions block))"
    unfolding l' update_balances_def by simp
  also have "\<dots> = balances (foldl update_balances_tx l (transactions block))"
    by (rule balances_foldl_update_balances_tx_cong) simp
  finally show ?thesis by (simp only: mine_block_Block_init(2) [OF mb])
qed

text \<open>A loop that returns has found a nonce that gives the zeros.\<close>

lemma mine_block_solution:
  assumes mb: "mine_block lib 2 b0 = Some block" and b0: "hash b0 = calculate_hash lib b0"
  shows "take 2 (calculate_hash lib (b0\<lparr>nonce := nonce block\<rparr>)) = ''00''"
proof -
  from mine_block_Some_aux [OF mb] b0
  have z: "take 2 (hash block) = replicate 2 (CHR ''0'')"
    and h: "hash block = calculate_hash lib block"
    and e: "block = b0\<lparr>nonce := nonce block, hash := hash block\<rparr>"
    by blast+
  have "calculate_hash lib (b0\<lparr>nonce := nonce block, hash := hash block\<rparr>) =
        calculate_hash lib (b0\<lparr>nonce := nonce block\<rparr>)"
    by simp
  with e have "calculate_hash lib block = calculate_hash lib (b0\<lparr>nonce := nonce block\<rparr>)"
    by metis
  with z h show ?thesis
    by (simp only: numeral_2_eq_2 replicate_Suc replicate_0)
qed

lemma mine_pending_transactions_solution:
  assumes "mine_pending_transactions lib l m t1 t2 = Some (Inr l')"
  shows "\<exists>n. take 2 (calculate_hash lib
           ((Block_init lib (length (chain l))
              (pending_transactions l @
                 [Transaction_init ''System'' m (mining_reward l) 0 ''mining_reward'' t1])
              (hash (last (chain l))) (creator_roll_number l) t2)\<lparr>nonce := n\<rparr>)) = ''00''"
proof -
  define b0 where "b0 = Block_init lib (length (chain l))
          (pending_transactions l @
             [Transaction_init ''System'' m (mining_reward l) 0 ''mining_reward'' t1])
          (hash (last (chain l))) (creator_roll_number l) t2"
  from assms obtain block where mb: "mine_block lib 2 b0 = Some block"
    unfolding b0_def by (rule mine_pending_transactions_Inr)
  have "hash b0 = calculate_hash lib b0"
    unfolding b0_def by (rule Block_init_fields(7))
  with mb have "take 2 (calculate_hash lib (b0\<lparr>nonce := nonce block\<rparr>)) = ''00''"
    by (rule mine_block_solution)
  then have "\<exists>n. take 2 (calculate_hash lib (b0\<lparr>nonce := n\<rparr>)) = ''00''"
    by (rule exI)
  then show ?thesis unfolding b0_def .
qed

text \<open>
  Along the reachable ledgers every block after the first has a hash with two leading
  zeros, and the blocks are numbered by their position.
\<close>

lemma reachable_difficulty:
  assumes "reachable lib l"
  shows "(\<forall>b \<in> set (tl (chain l)). take 2 (hash b) = ''00'') \<and>
         map index (chain l) = [0..<length (chain l)]"
  using assms
proof (induction rule: reachable.induct)
  case (r_init creator initial_balance t1 t2 t3)
  show ?case by (simp add: ZakatBlockchain_init_fields Block_init_fields)
next
  case (r_add_node l rn initial_balance t)
  then show ?case by (simp add: add_node_frame)
next
  case (r_zakat l a b t)
  then show ?case by (simp add: create_zakat_transaction_frame)
next
  case (r_transfer l a b amt t)
  then show ?case by (simp add: create_transfer_transaction_frame)
next
  case (r_add l tx)
  then show ?case by (simp add: add_transaction_frame)
next
  case (r_mine l m t1 t2 l')
  from r_mine(2) obtain b where
    "chain l \<noteq> []" "chain l' = chain l @ [b]" "index b = length (chain l)"
    "take 2 (hash b) = ''00''"
    by (rule mine_pending_transactions_block)
  with r_mine(3) show ?case by auto
qed

section \<open>The claims\<close>







text \<open>
  C6. The claim: the single genesis entry of Block 0 carries the creator's starting balance
  as its amount. \<open>create_genesis_block\<close> writes the literal 200.0 instead: a ledger
  constructed with starting balance 500 has balance 500 for its creator and a genesis entry
  of amount 200.
\<close>

theorem genesis_amount_is_literal:
  "map amount (transactions (hd (chain (ZakatBlockchain_init lib ''C1'' 500 t1 t2 t3)))) = [200] \<and>
   get_balance (ZakatBlockchain_init lib ''C1'' 500 t1 t2 t3) ''C1'' = 500"
  by (simp add: ZakatBlockchain_init_fields Block_init_fields Transaction_init_def
      get_balance_def)

text \<open>
  C9. \<open>validate_chain\<close> reads of the genesis block its stored hash only: two ledgers whose
  chains have the same blocks from index 1 on and genesis blocks with the same stored hash
  get the same verdict; in particular a valid chain stays valid when the entry list of its
  genesis block is replaced and the stored hash kept.
\<close>

theorem validate_chain_ignores_genesis:
  assumes "chain l = g # bs" and "chain l' = g' # bs" and "hash g = hash g'"
  shows "validate_chain lib l = validate_chain lib l' \<and>
         (validate_chain lib l \<longrightarrow>
            validate_chain lib (l\<lparr>chain := g\<lparr>transactions := txs\<rparr> # bs\<rparr>))"
proof -
  have a: "validate_chain_from lib (g # bs) 1 = validate_chain_from lib (g' # bs) 1"
    by (rule validate_chain_from_genesis [OF assms(3)]) simp
  have "hash g = hash (g\<lparr>transactions := txs\<rparr>)" by simp
  then have b: "validate_chain_from lib (g # bs) 1 =
                validate_chain_from lib (g\<lparr>transactions := txs\<rparr> # bs) 1"
    by (rule validate_chain_from_genesis) simp
  from a assms(1,2) have "validate_chain lib l = validate_chain lib l'"
    by (simp only: validate_chain_def)
  moreover from b assms(1) have "validate_chain lib l =
      validate_chain lib (l\<lparr>chain := g\<lparr>transactions := txs\<rparr> # bs\<rparr>)"
    by (simp add: validate_chain_def)
  ultimately show ?thesis by blast
qed

theorem validate_chain_ignores_genesis_witness:
  "\<exists>l g bs. reachable demo_lib l \<and> bs \<noteq> [] \<and> chain l = g # bs \<and>
      chain (l\<lparr>chain := g\<lparr>transactions := []\<rparr> # bs\<rparr>) = g\<lparr>transactions := []\<rparr> # bs \<and>
      hash g = hash (g\<lparr>transactions := []\<rparr>) \<and> transactions g \<noteq> [] \<and>
      validate_chain demo_lib l \<and>
      validate_chain demo_lib (l\<lparr>chain := g\<lparr>transactions := []\<rparr> # bs\<rparr>)"
proof -
  let ?l1 = "snd (create_transfer_transaction
                     (ZakatBlockchain_init demo_lib ''C1'' 200 ''t0'' ''t1'' ''t2'')
                     ''C1'' ''C2'' 50 ''t3'')"
  let ?g = "Block_init demo_lib 0 [Transaction_init ''Genesis'' ''C1'' 200 0 ''genesis'' ''t1'']
              ''0'' ''C1'' ''t2''"
  have r1: "reachable demo_lib ?l1" by (rule r_transfer, rule r_init)
  have "chain ?l1 \<noteq> []"
    by (simp add: create_transfer_transaction_frame ZakatBlockchain_init_fields)
  then obtain l where
    m: "mine_pending_transactions demo_lib ?l1 ''C1'' ''t4'' ''t5'' = Some (Inr l)"
    using demo_lib_seal_returns by blast
  from r1 m have r: "reachable demo_lib l" by (rule r_mine)
  from scenario_sealed(2) [OF m] obtain b where c: "chain l = ?g # [b]"
    and "hash b = calculate_hash demo_lib b" "previous_hash b = hash ?g"
    by blast
  then have v: "validate_chain demo_lib l"
    unfolding validate_chain_def c by (simp only: validate_chain_from_pair)
  have c': "chain (l\<lparr>chain := ?g\<lparr>transactions := []\<rparr> # [b]\<rparr>) = ?g\<lparr>transactions := []\<rparr> # [b]"
    by simp
  have h: "hash ?g = hash (?g\<lparr>transactions := []\<rparr>)" by simp
  have t: "transactions ?g \<noteq> []" by (simp add: Block_init_fields)
  from validate_chain_ignores_genesis [OF c c' h, of demo_lib "[]"] v
  have "validate_chain demo_lib (l\<lparr>chain := ?g\<lparr>transactions := []\<rparr> # [b]\<rparr>)" by blast
  with r c c' h t v show ?thesis by blast
qed

text \<open>
  C4. The scenario: from a ledger constructed for \<open>C1\<close> with 200, the transfer of 50 to
  \<open>C2\<close> is accepted, and once the seal by \<open>C1\<close> has returned, \<open>C2\<close> holds 50, \<open>C1\<close>
  holds 200 - 50 - 5 + 10, the chain has two blocks and \<open>validate_chain\<close> is true.
\<close>

theorem transfer_then_seal_scenario:
  assumes "mine_pending_transactions lib
             (snd (create_transfer_transaction
                     (ZakatBlockchain_init lib ''C1'' 200 t0 t1 t2) ''C1'' ''C2'' 50 t3))
             ''C1'' t4 t5 = Some (Inr l')"
  shows "fst (create_transfer_transaction
                (ZakatBlockchain_init lib ''C1'' 200 t0 t1 t2) ''C1'' ''C2'' 50 t3) \<and>
         get_balance l' ''C2'' = 50 \<and>
         get_balance l' ''C1'' = 200 - 50 - 5 + 10 \<and>
         length (chain l') = 2 \<and>
         validate_chain lib l'"
proof -
  have "fst (create_transfer_transaction
                (ZakatBlockchain_init lib ''C1'' 200 t0 t1 t2) ''C1'' ''C2'' 50 t3)"
    by (simp add: scenario_transfer)
  moreover from scenario_sealed(1) [OF assms]
  have "get_balance l' ''C2'' = 50" "get_balance l' ''C1'' = 200 - 50 - 5 + 10"
    by (simp_all add: get_balance_def)
  moreover from scenario_sealed(2) [OF assms] obtain g b where
    c: "chain l' = [g, b]" and "hash b = calculate_hash lib b" "previous_hash b = hash g"
    by blast
  then have "length (chain l') = 2" "validate_chain lib l'"
    unfolding validate_chain_def c by (simp_all only: validate_chain_from_pair) simp
  ultimately show ?thesis by blast
qed

theorem transfer_then_seal_scenario_witness:
  "\<exists>l'. mine_pending_transactions demo_lib
             (snd (create_transfer_transaction
                     (ZakatBlockchain_init demo_lib ''C1'' 200 ''t0'' ''t1'' ''t2'')
                     ''C1'' ''C2'' 50 ''t3''))
             ''C1'' ''t4'' ''t5'' = Some (Inr l') \<and>
        get_balance l' ''C2'' = 50 \<and> get_balance l' ''C1'' = 155 \<and>
        length (chain l') = 2 \<and> validate_chain demo_lib l'"
proof -
  let ?l1 = "snd (create_transfer_transaction
                     (ZakatBlockchain_init demo_lib ''C1'' 200 ''t0'' ''t1'' ''t2'')
                     ''C1'' ''C2'' 50 ''t3'')"
  have "chain ?l1 \<noteq> []"
    by (simp add: create_transfer_transaction_frame ZakatBlockchain_init_fields)
  then obtain l' where
    m: "mine_pending_transactions demo_lib ?l1 ''C1'' ''t4'' ''t5'' = Some (Inr l')"
    using demo_lib_seal_returns by blast
  from transfer_then_seal_scenario [OF m] m show ?thesis by auto
qed

text \<open>
  C1. The claim: the balances always sum to the registered starting balances plus 10 for
  every sealed block after the first. \<open>update_balances\<close> takes amount plus levy from the
  sender and gives the amount alone to the receiver, so every levy leaves the sum: in the
  scenario above the balances sum to 205 after the seal, where the claim gives
  200 + 10 * 1 = 210.
\<close>

theorem conservation_fails_in_scenario:
  assumes "mine_pending_transactions lib
             (snd (create_transfer_transaction
                     (ZakatBlockchain_init lib ''C1'' 200 t0 t1 t2) ''C1'' ''C2'' 50 t3))
             ''C1'' t4 t5 = Some (Inr l')"
  shows "sum_balances l' = 205 \<and>
         200 + 10 * rat_of_nat (length (chain l') - 1) = 210"
proof -
  from scenario_sealed(1) [OF assms] have "sum_balances l' = 205"
    by (simp add: sum_balances_def)
  moreover from scenario_sealed(2) [OF assms] have "length (chain l') = 2" by auto
  ultimately show ?thesis by simp
qed

theorem conservation_fails_in_scenario_witness:
  "\<exists>l'. mine_pending_transactions demo_lib
             (snd (create_transfer_transaction
                     (ZakatBlockchain_init demo_lib ''C1'' 200 ''t0'' ''t1'' ''t2'')
                     ''C1'' ''C2'' 50 ''t3''))
             ''C1'' ''t4'' ''t5'' = Some (Inr l') \<and>
        sum_balances l' = 205 \<and> sum_balances l' \<noteq> 200 + 10 * rat_of_nat (length (chain l') - 1)"
proof -
  let ?l1 = "snd (create_transfer_transaction
                     (ZakatBlockchain_init demo_lib ''C1'' 200 ''t0'' ''t1'' ''t2'')
                     ''C1'' ''C2'' 50 ''t3'')"
  have "chain ?l1 \<noteq> []"
    by (simp add: create_transfer_transaction_frame ZakatBlockchain_init_fields)
  then obtain l' where
    m: "mine_pending_transactions demo_lib ?l1 ''C1'' ''t4'' ''t5'' = Some (Inr l')"
    using demo_lib_seal_returns by blast
  from conservation_fails_in_scenario [OF m] m show ?thesis by auto
qed

text \<open>
  C7. On a reachable ledger, a seal by any identity \<open>m\<close> that returns has appended exactly
  one block: its index is the prior chain length, its previous hash the stored hash of the
  prior last block, its entries the prior pending entries followed by the reward entry
  (\<open>System\<close> to \<open>m\<close>, amount 10, levy 0), its seed key the ledger creator's identifier
  whatever \<open>m\<close> is; the pending set is empty afterwards. The seal never raises, and it
  returns exactly when some nonce gives the new block a hash with two leading zeros.
\<close>

theorem seal_appends_one_block:
  assumes "reachable lib l"
  shows "(\<forall>l'. mine_pending_transactions lib l m t1 t2 = Some (Inr l') \<longrightarrow>
            (\<exists>b. chain l' = chain l @ [b] \<and>
                 index b = length (chain l) \<and>
                 previous_hash b = hash (last (chain l)) \<and>
                 transactions b = pending_transactions l @
                   [Transaction_init ''System'' m 10 0 ''mining_reward'' t1] \<and>
                 roll_number b = creator_roll_number l \<and>
                 creator_roll_number l' = creator_roll_number l \<and>
                 pending_transactions l' = [])) \<and>
         ((\<exists>l'. mine_pending_transactions lib l m t1 t2 = Some (Inr l')) \<longleftrightarrow>
          (\<exists>n. take 2 (calculate_hash lib
                  ((Block_init lib (length (chain l))
                     (pending_transactions l @
                        [Transaction_init ''System'' m 10 0 ''mining_reward'' t1])
                     (hash (last (chain l))) (creator_roll_number l) t2)\<lparr>nonce := n\<rparr>)) = ''00'')) \<and>
         mine_pending_transactions lib l m t1 t2 \<noteq> Some (Inl IndexError)"
proof -
  from assms have rw: "mining_reward l = 10" and ne: "chain l \<noteq> []"
    by (rule reachable_constants)+
  have a: "\<exists>b. chain l' = chain l @ [b] \<and>
                 index b = length (chain l) \<and>
                 previous_hash b = hash (last (chain l)) \<and>
                 transactions b = pending_transactions l @
                   [Transaction_init ''System'' m 10 0 ''mining_reward'' t1] \<and>
                 roll_number b = creator_roll_number l \<and>
                 creator_roll_number l' = creator_roll_number l \<and>
                 pending_transactions l' = []"
    if m: "mine_pending_transactions lib l m t1 t2 = Some (Inr l')" for l'
  proof -
    from m obtain b where "chain l' = chain l @ [b]" "index b = length (chain l)"
      "transactions b = pending_transactions l @
         [Transaction_init ''System'' m (mining_reward l) 0 ''mining_reward'' t1]"
      "previous_hash b = hash (last (chain l))" "roll_number b = creator_roll_number l"
      by (rule mine_pending_transactions_block)
    with mine_pending_transactions_frame(1,4) [OF m] rw show ?thesis by auto
  qed
  have b: "(\<exists>l'. mine_pending_transactions lib l m t1 t2 = Some (Inr l')) \<longleftrightarrow>
          (\<exists>n. take 2 (calculate_hash lib
                  ((Block_init lib (length (chain l))
                     (pending_transactions l @
                        [Transaction_init ''System'' m 10 0 ''mining_reward'' t1])
                     (hash (last (chain l))) (creator_roll_number l) t2)\<lparr>nonce := n\<rparr>)) = ''00'')"
  proof
    assume "\<exists>l'. mine_pending_transactions lib l m t1 t2 = Some (Inr l')"
    then obtain l' where "mine_pending_transactions lib l m t1 t2 = Some (Inr l')" ..
    from mine_pending_transactions_solution [OF this] show
      "\<exists>n. take 2 (calculate_hash lib
                  ((Block_init lib (length (chain l))
                     (pending_transactions l @
                        [Transaction_init ''System'' m 10 0 ''mining_reward'' t1])
                     (hash (last (chain l))) (creator_roll_number l) t2)\<lparr>nonce := n\<rparr>)) = ''00''"
      unfolding rw .
  next
    assume "\<exists>n. take 2 (calculate_hash lib
                  ((Block_init lib (length (chain l))
                     (pending_transactions l @
                        [Transaction_init ''System'' m 10 0 ''mining_reward'' t1])
                     (hash (last (chain l))) (creator_roll_number l) t2)\<lparr>nonce := n\<rparr>)) = ''00''"
    then obtain n where "take 2 (calculate_hash lib
                  ((Block_init lib (length (chain l))
                     (pending_transactions l @
                        [Transaction_init ''System'' m (mining_reward l) 0 ''mining_reward'' t1])
                     (hash (last (chain l))) (creator_roll_number l) t2)\<lparr>nonce := n\<rparr>)) = ''00''"
      unfolding rw ..
    with ne show "\<exists>l'. mine_pending_transactions lib l m t1 t2 = Some (Inr l')"
      by (rule mine_pending_transactions_returns)
  qed
  have c: "mine_pending_transactions lib l m t1 t2 \<noteq> Some (Inl IndexError)"
    using ne by (simp add: mine_pending_transactions_def Let_def split: option.split)
  from a b c show ?thesis by blast
qed

theorem seal_appends_one_block_witness:
  "reachable demo_lib (ZakatBlockchain_init demo_lib ''C1'' 200 ''t0'' ''t1'' ''t2'') \<and>
   (\<exists>l' b. mine_pending_transactions demo_lib
              (ZakatBlockchain_init demo_lib ''C1'' 200 ''t0'' ''t1'' ''t2'') ''M'' ''t4'' ''t5''
              = Some (Inr l') \<and>
           chain l' = chain (ZakatBlockchain_init demo_lib ''C1'' 200 ''t0'' ''t1'' ''t2'') @ [b] \<and>
           index b = 1 \<and>
           transactions b = [Transaction_init ''System'' ''M'' 10 0 ''mining_reward'' ''t4''] \<and>
           roll_number b = ''C1'' \<and> pending_transactions l' = [])"
proof -
  let ?l = "ZakatBlockchain_init demo_lib ''C1'' 200 ''t0'' ''t1'' ''t2''"
  have r: "reachable demo_lib ?l" by (rule r_init)
  have "chain ?l \<noteq> []" by (simp add: ZakatBlockchain_init_fields)
  then obtain l' where
    m: "mine_pending_transactions demo_lib ?l ''M'' ''t4'' ''t5'' = Some (Inr l')"
    using demo_lib_seal_returns by blast
  from seal_appends_one_block [OF r, of "''M''" "''t4''" "''t5''"] m
  obtain b where "chain l' = chain ?l @ [b]" "index b = length (chain ?l)"
    "transactions b = pending_transactions ?l @
       [Transaction_init ''System'' ''M'' 10 0 ''mining_reward'' ''t4'']"
    "roll_number b = creator_roll_number ?l" "pending_transactions l' = []"
    by blast
  then have "chain l' = chain ?l @ [b] \<and> index b = 1 \<and>
     transactions b = [Transaction_init ''System'' ''M'' 10 0 ''mining_reward'' ''t4''] \<and>
     roll_number b = ''C1'' \<and> pending_transactions l' = []"
    by (simp add: ZakatBlockchain_init_fields)
  with r m show ?thesis by blast
qed

text \<open>
  C8. In every reachable ledger, every block at an index from 1 on has a stored hash whose
  first two characters are \<open>0\<close> (\<open>mine_block\<close> is called with its default difficulty 2),
  and its index field is its position.
\<close>

theorem sealed_blocks_meet_difficulty:
  assumes "reachable lib l" and "1 \<le> i" and "i < length (chain l)"
  shows "take 2 (hash (chain l ! i)) = ''00'' \<and> index (chain l ! i) = i"
proof -
  from assms(1) have z: "\<forall>b \<in> set (tl (chain l)). take 2 (hash b) = ''00''"
    and ix: "map index (chain l) = [0..<length (chain l)]"
    using reachable_difficulty by blast+
  from assms(2,3) obtain j where j: "i = Suc j" "j < length (tl (chain l))"
    by (cases i) auto
  then have "chain l ! i = tl (chain l) ! j" by (simp add: nth_tl)
  with j(2) have "chain l ! i \<in> set (tl (chain l))" by (metis nth_mem)
  with z have "take 2 (hash (chain l ! i)) = ''00''" by blast
  moreover from assms(3) have "map index (chain l) ! i = index (chain l ! i)" by simp
  with ix assms(3) have "index (chain l ! i) = i" by simp
  ultimately show ?thesis by blast
qed

theorem sealed_blocks_meet_difficulty_witness:
  "\<exists>l. reachable demo_lib l \<and> (1::nat) \<le> 1 \<and> 1 < length (chain l) \<and>
       take 2 (hash (chain l ! 1)) = ''00'' \<and> index (chain l ! 1) = 1"
proof -
  let ?l = "ZakatBlockchain_init demo_lib ''C1'' 200 ''t0'' ''t1'' ''t2''"
  have r: "reachable demo_lib ?l" by (rule r_init)
  have "chain ?l \<noteq> []" by (simp add: ZakatBlockchain_init_fields)
  then obtain l' where
    m: "mine_pending_transactions demo_lib ?l ''M'' ''t4'' ''t5'' = Some (Inr l')"
    using demo_lib_seal_returns by blast
  from r m have r': "reachable demo_lib l'" by (rule r_mine)
  from mine_pending_transactions_frame(5) [OF m] have len: "1 < length (chain l')"
    by (simp add: ZakatBlockchain_init_fields)
  have one: "(1::nat) \<le> 1" by simp
  from sealed_blocks_meet_difficulty [OF r' one len] r' one len show ?thesis by blast
qed

text \<open>
  C10. Nothing requires a transfer amount to be non-negative. On a fresh ledger the
  account \<open>X\<close> has balance 0; its transfer of -100 to \<open>C2\<close> gets levy 0, is accepted and
  enqueued; once a seal has returned, the balance of \<open>X\<close> has gone up to 100 and that of
  \<open>C2\<close> down to -100.
\<close>

theorem negative_amount_accepted:
  assumes "mine_pending_transactions lib
             (snd (create_transfer_transaction
                     (ZakatBlockchain_init lib ''C1'' 200 t0 t1 t2) ''X'' ''C2'' (- 100) t3))
             ''C1'' t4 t5 = Some (Inr l')"
  shows "create_transfer_transaction
           (ZakatBlockchain_init lib ''C1'' 200 t0 t1 t2) ''X'' ''C2'' (- 100) t3 =
         (True, (ZakatBlockchain_init lib ''C1'' 200 t0 t1 t2)
                  \<lparr>pending_transactions :=
                     [Transaction_init ''X'' ''C2'' (- 100) 0 ''transfer'' t3]\<rparr>) \<and>
         get_balance (ZakatBlockchain_init lib ''C1'' 200 t0 t1 t2) ''X'' = 0 \<and>
         get_balance (ZakatBlockchain_init lib ''C1'' 200 t0 t1 t2) ''C2'' = 0 \<and>
         get_balance l' ''X'' = 100 \<and>
         get_balance l' ''C2'' = - 100"
proof -
  let ?l0 = "ZakatBlockchain_init lib ''C1'' 200 t0 t1 t2"
  let ?tx = "Transaction_init ''X'' ''C2'' (- 100) 0 ''transfer'' t3"
  have t: "create_transfer_transaction ?l0 ''X'' ''C2'' (- 100) t3 =
           (True, ?l0\<lparr>pending_transactions := [?tx]\<rparr>)"
    by (simp add: create_transfer_transaction_def calculate_zakat_def add_transaction_def
        validate_transaction_def get_balance_def ZakatBlockchain_init_fields
        Transaction_init_def Let_def)
  have z: "get_balance ?l0 ''X'' = 0" "get_balance ?l0 ''C2'' = 0"
    by (simp_all add: get_balance_def ZakatBlockchain_init_fields)
  from assms have "mine_pending_transactions lib (?l0\<lparr>pending_transactions := [?tx]\<rparr>)
                     ''C1'' t4 t5 = Some (Inr l')"
    by (simp add: t)
  from mine_pending_transactions_balances [OF this]
  have "balances l' = [(''C1'', 210), (''X'', 100), (''C2'', - 100)]"
    by (simp add: balances_update_balances_tx ZakatBlockchain_init_fields
        Transaction_init_def Let_def)
  then have "get_balance l' ''X'' = 100" "get_balance l' ''C2'' = - 100"
    by (simp_all add: get_balance_def)
  with t z show ?thesis by blast
qed

theorem negative_amount_accepted_witness:
  "\<exists>l'. mine_pending_transactions demo_lib
             (snd (create_transfer_transaction
                     (ZakatBlockchain_init demo_lib ''C1'' 200 ''t0'' ''t1'' ''t2'')
                     ''X'' ''C2'' (- 100) ''t3''))
             ''C1'' ''t4'' ''t5'' = Some (Inr l') \<and>
        fst (create_transfer_transaction
               (ZakatBlockchain_init demo_lib ''C1'' 200 ''t0'' ''t1'' ''t2'')
               ''X'' ''C2'' (- 100) ''t3'') \<and>
        get_balance l' ''X'' = 100 \<and> get_balance l' ''C2'' = - 100"
proof -
  let ?l1 = "snd (create_transfer_transaction
                     (ZakatBlockchain_init demo_lib ''C1'' 200 ''t0'' ''t1'' ''t2'')
                     ''X'' ''C2'' (- 100) ''t3'')"
  have "chain ?l1 \<noteq> []"
    by (simp add: create_transfer_transaction_frame ZakatBlockchain_init_fields)
  then obtain l' where
    m: "mine_pending_transactions demo_lib ?l1 ''C1'' ''t4'' ''t5'' = Some (Inr l')"
    using demo_lib_seal_returns by blast
  from negative_amount_accepted [OF m] m show ?thesis by auto
qed

end
